theory Spec2Isabelle
  imports Complex_Main
begin

section \<open>Values, messages and exceptions of the runner\<close>

text \<open>
  The embedding follows \<^verbatim>\<open>e2e/runner/runner.py\<close>. Conventions:
  \<^item> a Python \<^verbatim>\<open>str\<close> and a \<^verbatim>\<open>bytes\<close> value are both a \<open>string\<close>; \<^verbatim>\<open>encode\<close> and
    \<^verbatim>\<open>decode\<close> are the identity;
  \<^item> a Python \<^verbatim>\<open>float\<close> is the real number it denotes: rounding is not modelled, the
    \<^verbatim>\<open>OverflowError\<close> of \<^verbatim>\<open>**\<close> is;
  \<^item> a value produced by \<^verbatim>\<open>json.loads\<close> is a \<open>json\<close>; Python's \<^verbatim>\<open>None\<close> is \<open>JNull\<close>, a
    \<^verbatim>\<open>dict\<close> is the list of its items (keys distinct, in insertion order);
  \<^item> an f-string is the list of its segments (\<open>piece\<close>), so that \<^verbatim>\<open>str\<close> and \<^verbatim>\<open>repr\<close>
    of an interpolated JSON value need no model of their own;
  \<^item> every function that has an effect takes the world and returns the new one together
    with its result, \<open>Inl\<close> for a raised exception and \<open>Inr\<close> for a returned value.
\<close>

datatype json =
    JNull
  | JBool bool
  | JInt int
  | JFloat real
  | JStr string
  | JList "json list"
  | JDict "(string \<times> json) list"

datatype piece =
    Txt string
  | Num int
  | Str json
  | Repr json

type_synonym message = "piece list"

record http_failure =
  status :: int
  http_method :: string
  path :: string
  headers :: "(string \<times> string) list"
  body_text :: string
  error_code :: json
  normalized_code :: json
  normalized_retryable :: json
  retry_after :: "string option"
  request_id :: "string option"

text \<open>
  \<open>HTTPFailure\<close> and \<open>RuntimeError\<close> are the two exceptions the runner raises itself;
  \<open>LibError cls msg\<close> is an exception raised by the Python library (class name and
  message). All of them are instances of \<^verbatim>\<open>Exception\<close>.
\<close>

datatype exn =
    HTTPFailure http_failure
  | RuntimeError message
  | LibError string message

text \<open>\<^verbatim>\<open>str(e)\<close>: \<open>HTTPFailure.__init__\<close> passes \<^verbatim>\<open>f"HTTP {status} {method} {path}"\<close> to
  \<open>RuntimeError\<close>.\<close>

fun str_exn :: "exn \<Rightarrow> message" where
  "str_exn (HTTPFailure f) = [Txt ''HTTP '', Num (status f), Txt '' '', Txt (http_method f), Txt '' '', Txt (path f)]"
| "str_exn (RuntimeError m) = m"
| "str_exn (LibError c m) = m"

section \<open>The world: clock, network, output\<close>

text \<open>
  What the server answers to one request: the time the exchange takes (milliseconds) and
  its outcome. \<open>Answer\<close> is the final HTTP response, \<open>Unreachable\<close> a network failure
  (\<^verbatim>\<open>urllib.error.URLError\<close>), \<open>Broken\<close> any other exception of the library.
  \<open>parsed\<close> is what \<^verbatim>\<open>json.loads\<close> gives on the body: \<open>None\<close> when it raises.
\<close>

record body =
  raw :: string
  parsed :: "json option"

datatype outcome =
    Answer int "(string \<times> string) list" body
  | Unreachable message
  | Broken string message

record reply =
  took :: nat
  outcome :: outcome

datatype payload = JsonData json | RawData string

record request =
  req_method :: string
  req_url :: string
  req_headers :: "(string \<times> string) list"
  req_data :: "payload option"
  req_timeout :: int

datatype event =
    Print message
  | Slept real
  | Sent request

text \<open>
  \<open>clock\<close> is \<^verbatim>\<open>time.time()\<close>; \<open>inbox\<close> the replies the next requests will get, in order;
  \<open>outbox\<close> everything the process has printed, slept and sent, in order; \<open>opaque\<close> the
  state of whatever else a callable passed to \<open>retry\<close> reads and writes. \<open>base_url\<close>,
  \<open>api_token\<close> and \<open>e2e_gcs_iam\<close> are the environment variables read at start
  (\<open>base_url\<close> after \<^verbatim>\<open>rstrip("/")\<close>).
\<close>

record 's world =
  clock :: real
  inbox :: "reply list"
  outbox :: "event list"
  opaque :: 's
  base_url :: string
  api_token :: string
  e2e_gcs_iam :: string

type_synonym ('a, 's) io = "'s world \<Rightarrow> (exn + 'a) \<times> 's world"

definition log :: "message \<Rightarrow> 's world \<Rightarrow> 's world" where
  "log msg w = w\<lparr>outbox := outbox w @ [Print msg]\<rparr>"

text \<open>\<^verbatim>\<open>time.sleep\<close> raises \<open>ValueError\<close> on a negative length.\<close>

definition time_sleep :: "real \<Rightarrow> (unit, 's) io" where
  "time_sleep secs w =
     (if secs < 0 then (Inl (LibError ''ValueError'' [Txt ''sleep length must be non-negative'']), w)
      else (Inr (), w\<lparr>clock := clock w + secs, outbox := outbox w @ [Slept secs]\<rparr>))"

section \<open>Retry coordinator\<close>

text \<open>
  \<^verbatim>\<open>factor ** n\<close> on a float raises \<open>OverflowError\<close> when the result is not a finite
  double, that is from \<open>2 ^ 1024\<close> on.
\<close>

definition float_pow :: "real \<Rightarrow> nat \<Rightarrow> exn + real" where
  "float_pow x n =
     (if 2 ^ 1024 \<le> \<bar>x ^ n\<bar> then Inl (LibError ''OverflowError'' [Txt ''(34, 'Numerical result out of range')''])
      else Inr (x ^ n))"

definition sleep_backoff :: "real \<Rightarrow> int \<Rightarrow> real \<Rightarrow> real \<Rightarrow> real" where
  "sleep_backoff base_s attempt factor max_s =
     (case float_pow factor (nat (max 0 (attempt - 1))) of
        Inr p \<Rightarrow> min max_s (base_s * p)
      | Inl e \<Rightarrow> base_s)"

definition retry_msg :: "string \<Rightarrow> int \<Rightarrow> int \<Rightarrow> exn \<Rightarrow> message" where
  "retry_msg what i attempts e =
     [Txt what, Txt '' failed (attempt '', Num i, Txt ''/'', Num attempts, Txt ''): ''] @ str_exn e"

text \<open>The two statements after the loop.\<close>

definition retry_end :: "string \<Rightarrow> exn option \<Rightarrow> ('a, 's) io" where
  "retry_end what last_err w =
     (case last_err of
        None \<Rightarrow> (Inl (RuntimeError [Txt what, Txt '' failed'']), w)
      | Some e \<Rightarrow> (Inl e, w))"

text \<open>The loop \<^verbatim>\<open>for i in range(1, attempts + 1)\<close>, from \<open>i\<close> on.\<close>

function retry_loop :: "string \<Rightarrow> ('a, 's) io \<Rightarrow> int \<Rightarrow> real \<Rightarrow> int \<Rightarrow> exn option \<Rightarrow> ('a, 's) io" where
  "retry_loop what fn attempts base_delay_s i last_err w =
     (if i \<le> attempts then
        (case fn w of
           (Inr v, w1) \<Rightarrow> (Inr v, w1)
         | (Inl e, w1) \<Rightarrow>
             if i \<ge> attempts then retry_end what (Some e) w1
             else (case time_sleep (sleep_backoff base_delay_s i (13 / 10) 5)
                          (log (retry_msg what i attempts e) w1) of
                     (Inl e', w2) \<Rightarrow> (Inl e', w2)
                   | (Inr u, w2) \<Rightarrow> retry_loop what fn attempts base_delay_s (i + 1) (Some e) w2))
      else retry_end what last_err w)"
  by pat_completeness auto
termination
  by (relation "measure (\<lambda>(what, fn, attempts, base_delay_s, i, last_err, w). nat (attempts + 1 - i))") auto

declare retry_loop.simps [simp del]

definition retry :: "string \<Rightarrow> ('a, 's) io \<Rightarrow> int \<Rightarrow> real \<Rightarrow> ('a, 's) io" where
  "retry what fn attempts base_delay_s w = retry_loop what fn attempts base_delay_s 1 None w"

text \<open>
  An operation that reads and writes only its own state, as a callable of the world; the
  state after \<open>n\<close> calls; the result of the call made in that state.
\<close>

definition on_opaque :: "('s \<Rightarrow> (exn + 'a) \<times> 's) \<Rightarrow> ('a, 's) io" where
  "on_opaque fn w = (case fn (opaque w) of (r, s') \<Rightarrow> (r, w\<lparr>opaque := s'\<rparr>))"



section \<open>Observations used to state the properties of the retry coordinator\<close>







section \<open>Concrete worlds and operations for the instances\<close>

text \<open>A world at time 0 with the default configuration, nothing sent or printed yet.\<close>

definition fresh :: "reply list \<Rightarrow> 's \<Rightarrow> 's world" where
  "fresh rs s = \<lparr>clock = 0, inbox = rs, outbox = [], opaque = s,
     base_url = ''http://localhost:8080'', api_token = ''change-me'', e2e_gcs_iam = []\<rparr>"

text \<open>An operation that counts its calls in its state and succeeds from call \<open>k + 1\<close> on.\<close>

definition flaky :: "nat \<Rightarrow> nat \<Rightarrow> (exn + nat) \<times> nat" where
  "flaky k n = (if n < k then Inl (RuntimeError [Txt ''not yet'']) else Inr n, Suc n)"



section \<open>Python values\<close>

text \<open>Truthiness of a JSON value and of an optional string, as \<^verbatim>\<open>if x:\<close> tests it.\<close>

fun truthy :: "json \<Rightarrow> bool" where
  "truthy JNull = False"
| "truthy (JBool b) = b"
| "truthy (JInt n) = (n \<noteq> 0)"
| "truthy (JFloat x) = (x \<noteq> 0)"
| "truthy (JStr s) = (s \<noteq> [])"
| "truthy (JList xs) = (xs \<noteq> [])"
| "truthy (JDict kvs) = (kvs \<noteq> [])"

fun truthy_str :: "string option \<Rightarrow> bool" where
  "truthy_str None = False"
| "truthy_str (Some s) = (s \<noteq> [])"

text \<open>\<^verbatim>\<open>a or b\<close> on optional strings.\<close>

definition py_or :: "string option \<Rightarrow> string option \<Rightarrow> string option" where
  "py_or a b = (if truthy_str a then a else b)"

text \<open>\<^verbatim>\<open>isinstance(x, dict)\<close>, \<^verbatim>\<open>isinstance(x, list)\<close>.\<close>

fun is_dict :: "json \<Rightarrow> bool" where
  "is_dict (JDict kvs) = True"
| "is_dict j = False"

fun is_list :: "json \<Rightarrow> bool" where
  "is_list (JList xs) = True"
| "is_list j = False"

text \<open>
  \<^verbatim>\<open>x.get(k)\<close>: the value of the key, \<^verbatim>\<open>None\<close> when the key is missing, and an
  \<open>AttributeError\<close> when \<open>x\<close> is not a dict (a list, a string, a number and \<^verbatim>\<open>None\<close>
  have no \<^verbatim>\<open>get\<close>). \<open>dget\<close> is the same where \<open>x\<close> is known to be a dict: the source
  has checked \<^verbatim>\<open>isinstance(x, dict)\<close> before.
\<close>

definition dict_get :: "(string \<times> 'v) list \<Rightarrow> string \<Rightarrow> 'v option" where
  "dict_get kvs k = map_of kvs k"

fun dget :: "json \<Rightarrow> string \<Rightarrow> json" where
  "dget (JDict kvs) k = (case dict_get kvs k of None \<Rightarrow> JNull | Some v \<Rightarrow> v)"
| "dget j k = JNull"

fun py_get :: "json \<Rightarrow> string \<Rightarrow> exn + json" where
  "py_get (JDict kvs) k = Inr (dget (JDict kvs) k)"
| "py_get j k = Inl (LibError ''AttributeError'' [Txt ''object has no attribute 'get' ''])"

text \<open>\<^verbatim>\<open>k in x\<close> for a dict \<open>x\<close>.\<close>

fun has_key :: "json \<Rightarrow> string \<Rightarrow> bool" where
  "has_key (JDict kvs) k = (k \<in> fst ` set kvs)"
| "has_key j k = False"

text \<open>
  \<^verbatim>\<open>d[k] = v\<close> on the items of a dict: the value is replaced where the key is, a new key
  goes to the end. \<open>dict_of\<close> is the dict comprehension \<^verbatim>\<open>{k: v for k, v in items}\<close>.
\<close>

fun dict_set :: "string \<Rightarrow> 'v \<Rightarrow> (string \<times> 'v) list \<Rightarrow> (string \<times> 'v) list" where
  "dict_set k v [] = [(k, v)]"
| "dict_set k v ((k', v') # d) = (if k' = k then (k, v) # d else (k', v') # dict_set k v d)"

definition dict_of :: "(string \<times> 'v) list \<Rightarrow> (string \<times> 'v) list" where
  "dict_of items = foldl (\<lambda>d (k, v). dict_set k v d) [] items"

section \<open>Transport\<close>

text \<open>
  \<^verbatim>\<open>urllib.request.urlopen\<close> together with \<^verbatim>\<open>resp.read()\<close>: the request goes out, the
  next reply of the inbox comes in and the clock moves by the time it took. When no reply
  is left the connection is refused.
\<close>

definition urlopen :: "request \<Rightarrow> 's world \<Rightarrow> outcome \<times> 's world" where
  "urlopen req w =
     (case inbox w of
        [] \<Rightarrow> (Unreachable [Txt ''<urlopen error [Errno 111] Connection refused>''],
               w\<lparr>outbox := outbox w @ [Sent req]\<rparr>)
      | r # rs \<Rightarrow> (outcome r,
               w\<lparr>clock := clock w + real (took r) / 1000, inbox := rs, outbox := outbox w @ [Sent req]\<rparr>))"

text \<open>The headers and the data of the request, as \<open>_request\<close> builds them.\<close>

definition build_request ::
  "string \<Rightarrow> string \<Rightarrow> string option \<Rightarrow> json option \<Rightarrow> string option \<Rightarrow> string option \<Rightarrow> string option \<Rightarrow> int \<Rightarrow>
   's world \<Rightarrow> request" where
  "build_request meth pth profile_id json_body body content_type accept timeout_s w =
     (let headers = [(''X-Api-Token'', api_token w)];
          headers = (if truthy_str profile_id then dict_set ''X-Profile-Id'' (the profile_id) headers else headers);
          headers = (if truthy_str accept then dict_set ''Accept'' (the accept) headers else headers);
          (data, headers) =
            (case json_body of
               Some j \<Rightarrow> (Some (JsonData j), dict_set ''Content-Type'' ''application/json'' headers)
             | None \<Rightarrow>
                 (case body of
                    Some b \<Rightarrow> (Some (RawData b),
                       if truthy_str content_type then dict_set ''Content-Type'' (the content_type) headers
                       else headers)
                  | None \<Rightarrow> (None, headers)))
      in \<lparr>req_method = meth, req_url = base_url w @ pth, req_headers = headers,
          req_data = data, req_timeout = timeout_s\<rparr>)"

text \<open>
  The handler of \<^verbatim>\<open>urllib.error.HTTPError\<close>: what it reads from the response of status
  \<open>code\<close>, what it prints, and the \<open>HTTPFailure\<close> it raises.
\<close>

definition error_fields :: "body \<Rightarrow> json \<times> json \<times> json" where
  "error_fields b =
     (case parsed b of
        None \<Rightarrow> (JNull, JNull, JNull)
      | Some p \<Rightarrow>
          if is_dict p \<and> is_dict (dget p ''error'') then
            (let er = dget p ''error'';
                 err_code = dget er ''code'';
                 norm = dget er ''normalizedError''
             in if is_dict norm then (err_code, dget norm ''code'', dget norm ''retryable'')
                else (err_code, JNull, JNull))
          else (JNull, JNull, JNull))"

definition http_error ::
  "string \<Rightarrow> string \<Rightarrow> int \<Rightarrow> (string \<times> string) list \<Rightarrow> body \<Rightarrow>
   (int \<times> (string \<times> string) list \<times> body, 's) io" where
  "http_error meth pth code hdrs b w =
     (let resp_headers = dict_of hdrs;
          retry_after = dict_get resp_headers ''Retry-After'';
          request_id = py_or (dict_get resp_headers ''X-Request-Id'')
                         (py_or (dict_get resp_headers ''X-Request-ID'')
                                (dict_get resp_headers ''X-Amzn-Requestid''));
          decoded = raw b;
          (err_code, norm_code, norm_retryable) = error_fields b;
          w = log [Txt ''HTTP '', Num code, Txt '' '', Txt meth, Txt '' '', Txt pth] w;
          w = (if truthy_str request_id then log [Txt ''  X-Request-Id: '', Txt (the request_id)] w else w);
          w = (if truthy_str retry_after then log [Txt ''  Retry-After: '', Txt (the retry_after)] w else w);
          w = (if truthy err_code then log [Txt ''  ErrorResponse.code: '', Str err_code] w else w);
          w = (if norm_code \<noteq> JNull
               then log [Txt ''  ErrorResponse.normalizedError: '', Str norm_code, Txt '' retryable='', Str norm_retryable] w
               else w);
          w = (if decoded \<noteq> [] then
                 log [Txt ''  Body: '',
                      Txt (if length decoded \<le> 4000 then decoded else take 4000 decoded @ ''...<clipped>'')] w
               else w)
      in (Inl (HTTPFailure \<lparr>status = code, http_method = meth, path = pth, headers = resp_headers,
             body_text = decoded, error_code = err_code, normalized_code = norm_code,
             normalized_retryable = norm_retryable, retry_after = retry_after,
             request_id = request_id\<rparr>), w))"

text \<open>
  \<open>_request\<close> (an Isabelle name cannot begin with an underscore). \<^verbatim>\<open>urlopen\<close> returns the
  response when its status is in \<open>[200, 300)\<close> and raises \<open>HTTPError\<close> for every other
  status (\<^verbatim>\<open>HTTPErrorProcessor\<close>); \<open>URLError\<close> becomes a \<open>RuntimeError\<close>, any other
  exception goes through.
\<close>

definition u_request ::
  "string \<Rightarrow> string \<Rightarrow> string option \<Rightarrow> json option \<Rightarrow> string option \<Rightarrow> string option \<Rightarrow> string option \<Rightarrow> int \<Rightarrow>
   (int \<times> (string \<times> string) list \<times> body, 's) io" where
  "u_request meth pth profile_id json_body body content_type accept timeout_s w =
     (case urlopen (build_request meth pth profile_id json_body body content_type accept timeout_s w) w of
        (Answer code hdrs b, w1) \<Rightarrow>
          if 200 \<le> code \<and> code < 300 then (Inr (code, dict_of hdrs, b), w1)
          else http_error meth pth code hdrs b w1
      | (Unreachable reason, w1) \<Rightarrow>
          (Inl (RuntimeError ([Txt ''Network error '', Txt meth, Txt '' '', Txt pth, Txt '': ''] @ reason)), w1)
      | (Broken cls msg, w1) \<Rightarrow> (Inl (LibError cls msg), w1))"

definition unexpected_http :: "int \<Rightarrow> string \<Rightarrow> string \<Rightarrow> exn" where
  "unexpected_http code meth pth =
     RuntimeError [Txt ''Unexpected HTTP '', Num code, Txt '' '', Txt meth, Txt '' '', Txt pth]"

text \<open>The exception of \<^verbatim>\<open>json.loads\<close> and of a strict \<^verbatim>\<open>decode\<close>; its message is not modelled.\<close>

definition json_error :: exn where
  "json_error = LibError ''ValueError'' [Txt ''malformed JSON document'']"

definition request_json :: "string \<Rightarrow> string \<Rightarrow> string option \<Rightarrow> json option \<Rightarrow> (json, 's) io" where
  "request_json meth pth profile_id json_body w =
     (case u_request meth pth profile_id json_body None None (Some ''application/json'') 30 w of
        (Inl e, w1) \<Rightarrow> (Inl e, w1)
      | (Inr (code, hdrs, b), w1) \<Rightarrow>
          if code < 200 \<or> code \<ge> 300 then (Inl (unexpected_http code meth pth), w1)
          else if raw b = [] then (Inr (JDict []), w1)
          else (case parsed b of None \<Rightarrow> (Inl json_error, w1) | Some j \<Rightarrow> (Inr j, w1)))"

definition request_bytes :: "string \<Rightarrow> string \<Rightarrow> string option \<Rightarrow> (string, 's) io" where
  "request_bytes meth pth profile_id w =
     (case u_request meth pth profile_id None None None None 30 w of
        (Inl e, w1) \<Rightarrow> (Inl e, w1)
      | (Inr (code, hdrs, b), w1) \<Rightarrow>
          if code < 200 \<or> code \<ge> 300 then (Inl (unexpected_http code meth pth), w1)
          else (Inr (raw b), w1))"

definition request_text :: "string \<Rightarrow> string \<Rightarrow> string option \<Rightarrow> (string, 's) io" where
  "request_text meth pth profile_id w =
     (case u_request meth pth profile_id None None None (Some ''text/plain'') 30 w of
        (Inl e, w1) \<Rightarrow> (Inl e, w1)
      | (Inr (code, hdrs, b), w1) \<Rightarrow>
          if code < 200 \<or> code \<ge> 300 then (Inl (unexpected_http code meth pth), w1)
          else (Inr (raw b), w1))"

text \<open>A reply of status 503 with an error envelope, and the failure \<open>_request\<close> makes of it.\<close>

definition busy :: reply where
  "busy = \<lparr>took = 40, outcome = Answer 503 [(''Retry-After'', ''2'')]
     \<lparr>raw = ''{error: {code: busy}}'',
      parsed = Some (JDict [(''error'', JDict [(''code'', JStr ''busy'')])])\<rparr>\<rparr>"

definition busy_failure :: "string \<Rightarrow> string \<Rightarrow> http_failure" where
  "busy_failure meth pth = \<lparr>status = 503, http_method = meth, path = pth,
     headers = [(''Retry-After'', ''2'')], body_text = ''{error: {code: busy}}'',
     error_code = JStr ''busy'', normalized_code = JNull, normalized_retryable = JNull,
     retry_after = Some ''2'', request_id = None\<rparr>"

section \<open>Job poller\<close>

text \<open>
  \<^verbatim>\<open>str.strip\<close> and \<^verbatim>\<open>str.rstrip\<close> remove white space: the characters 9 to 13, 28 to
  32 among the ASCII ones.
\<close>

definition py_space :: "char \<Rightarrow> bool" where
  "py_space c \<longleftrightarrow> (let n = of_char c :: nat in (9 \<le> n \<and> n \<le> 13) \<or> (28 \<le> n \<and> n \<le> 32))"

definition rstrip :: "string \<Rightarrow> string" where
  "rstrip s = rev (dropWhile py_space (rev s))"

definition strip :: "string \<Rightarrow> string" where
  "strip s = dropWhile py_space (rstrip s)"

text \<open>The \<^verbatim>\<open>try\<close> statement of \<open>poll_job\<close>: it fetches the tail of the job's log and never raises.\<close>

definition job_logs :: "string \<Rightarrow> string \<Rightarrow> 's world \<Rightarrow> 's world" where
  "job_logs job_id profile_id w =
     (case request_text ''GET'' (''/jobs/'' @ job_id @ ''/logs?tailBytes=65536'') (Some profile_id) w of
        (Inr tail, w1) \<Rightarrow>
          if strip tail \<noteq> [] then
            log [Txt ''---- end job logs ----''] (log [Txt (rstrip tail)] (log [Txt ''---- job logs (tail) ----''] w1))
          else w1
      | (Inl e, w1) \<Rightarrow> log ([Txt ''(warn) failed to fetch job logs: ''] @ str_exn e) w1)"

definition job_failed :: "string \<Rightarrow> json \<Rightarrow> json \<Rightarrow> exn" where
  "job_failed job_id st job =
     RuntimeError [Txt ''Job '', Txt job_id, Txt '' ended with status='', Str st, Txt '': '', Str (dget job ''error'')]"

definition job_timeout :: "string \<Rightarrow> exn" where
  "job_timeout job_id = RuntimeError [Txt ''Job '', Txt job_id, Txt '' did not finish within 180s'']"

text \<open>
  No request and no print turns the clock back, and every round of the loop below sleeps
  one second: this is why the loop ends.
\<close>

lemma log_clock [simp]: "clock (log m w) = clock w"
  by (simp add: log_def)

lemma http_error_clock: "clock (snd (http_error meth pth code hdrs b w)) = clock w"
  by (simp add: http_error_def Let_def split: prod.splits)

lemma urlopen_clock: "clock w \<le> clock (snd (urlopen req w))"
  by (simp add: urlopen_def split: list.splits)

lemma u_request_clock: "clock w \<le> clock (snd (u_request meth pth pid jb body ct acc tmo w))"
  using urlopen_clock [of w "build_request meth pth pid jb body ct acc tmo w"]
  by (auto simp: u_request_def http_error_clock split: prod.splits outcome.splits)

lemma request_json_clock: "clock w \<le> clock (snd (request_json meth pth pid jb w))"
  using u_request_clock [of w meth pth pid jb None None "Some ''application/json''" 30]
  by (auto simp: request_json_def split: prod.splits sum.splits option.splits)

text \<open>The loop \<^verbatim>\<open>while time.time() < deadline\<close> of \<open>poll_job\<close>.\<close>

function poll_loop :: "string \<Rightarrow> string \<Rightarrow> real \<Rightarrow> (unit, 's) io" where
  "poll_loop job_id profile_id deadline w =
     (if clock w < deadline then
        (case request_json ''GET'' (''/jobs/'' @ job_id) (Some profile_id) None w of
           (Inl e, w1) \<Rightarrow> (Inl e, w1)
         | (Inr job, w1) \<Rightarrow>
             (case py_get job ''status'' of
                Inl e \<Rightarrow> (Inl e, w1)
              | Inr st \<Rightarrow>
                  if st = JStr ''succeeded'' then (Inr (), w1)
                  else if st = JStr ''failed'' \<or> st = JStr ''canceled'' then
                    (Inl (job_failed job_id st job), job_logs job_id profile_id w1)
                  else (case time_sleep 1 w1 of
                          (Inl e, w2) \<Rightarrow> (Inl e, w2)
                        | (Inr u, w2) \<Rightarrow> poll_loop job_id profile_id deadline w2)))
      else (Inl (job_timeout job_id), w))"
  by pat_completeness auto
termination
proof (relation "measure (\<lambda>(job_id, profile_id, deadline, w). nat \<lceil>deadline - clock w\<rceil>)", goal_cases)
  case 1
  show ?case by simp
next
  case (2 job_id profile_id deadline w x1 w1 job st x2 w2 u)
  from 2 have "clock w \<le> clock w1"
    using request_json_clock [of w "''GET''" "''/jobs/'' @ job_id" "Some profile_id" None]
    by (metis snd_conv)
  moreover from 2 have "clock w2 = clock w1 + 1"
    by (auto simp: time_sleep_def split: if_splits)
  ultimately show ?case using \<open>clock w < deadline\<close> by (simp; linarith)
qed

declare poll_loop.simps [simp del]

definition poll_job :: "string \<Rightarrow> string \<Rightarrow> (unit, 's) io" where
  "poll_job job_id profile_id w = poll_loop job_id profile_id (clock w + 180) w"

section \<open>Observations used to state the properties of the requests\<close>

text \<open>The requests among some events, in order.\<close>

fun sent :: "event list \<Rightarrow> request list" where
  "sent [] = []"
| "sent (Sent r # es) = r # sent es"
| "sent (e # es) = sent es"

text \<open>What \<open>request_json\<close> returns on a reply, when it returns.\<close>

definition envelope :: "reply \<Rightarrow> json option" where
  "envelope r =
     (case outcome r of
        Answer code hdrs b \<Rightarrow>
          if 200 \<le> code \<and> code < 300 then (if raw b = [] then Some (JDict []) else parsed b) else None
      | Unreachable reason \<Rightarrow> None
      | Broken cls msg \<Rightarrow> None)"

text \<open>A reply to a poll that shows a job in no terminal state.\<close>

definition pending :: "reply \<Rightarrow> bool" where
  "pending r =
     (case envelope r of
        Some (JDict kvs) \<Rightarrow>
          dget (JDict kvs) ''status'' \<noteq> JStr ''succeeded'' \<and>
          dget (JDict kvs) ''status'' \<noteq> JStr ''failed'' \<and>
          dget (JDict kvs) ''status'' \<noteq> JStr ''canceled''
      | _ \<Rightarrow> False)"

text \<open>
  A message as a string, given the strings of the interpolated values (\<open>fmt\<close> stands
  for \<^verbatim>\<open>str\<close> and \<^verbatim>\<open>repr\<close>).
\<close>

definition render :: "(piece \<Rightarrow> string) \<Rightarrow> message \<Rightarrow> string" where
  "render fmt m = concat (map (\<lambda>p. case p of Txt s \<Rightarrow> s | Num n \<Rightarrow> fmt p | Str j \<Rightarrow> fmt p | Repr j \<Rightarrow> fmt p) m)"

text \<open>The world after one request \<open>req\<close> whose handling printed the lines \<open>ps\<close>.\<close>

definition lag :: "'s world \<Rightarrow> real" where
  "lag w = (case inbox w of [] \<Rightarrow> 0 | r # rs \<Rightarrow> real (took r) / 1000)"

definition after_request :: "request \<Rightarrow> message list \<Rightarrow> 's world \<Rightarrow> 's world" where
  "after_request req ps w =
     w\<lparr>clock := clock w + lag w, inbox := tl (inbox w), outbox := outbox w @ Sent req # map Print ps\<rparr>"

text \<open>Replies with a JSON document, with a text, and with a job in a given state.\<close>

definition json_reply :: "json \<Rightarrow> reply" where
  "json_reply j = \<lparr>took = 20, outcome = Answer 200 [(''Content-Type'', ''application/json'')]
     \<lparr>raw = ''{...}'', parsed = Some j\<rparr>\<rparr>"

definition text_reply :: "string \<Rightarrow> reply" where
  "text_reply s = \<lparr>took = 20, outcome = Answer 200 [(''Content-Type'', ''text/plain'')]
     \<lparr>raw = s, parsed = None\<rparr>\<rparr>"

definition job_reply :: "string \<Rightarrow> json \<Rightarrow> reply" where
  "job_reply st err = json_reply (JDict [(''id'', JStr ''j1''), (''status'', JStr st), (''error'', err)])"

text \<open>The two requests of \<open>poll_job\<close>.\<close>

definition status_request :: "string \<Rightarrow> string \<Rightarrow> 's world \<Rightarrow> request" where
  "status_request job_id profile_id w =
     build_request ''GET'' (''/jobs/'' @ job_id) (Some profile_id) None None None (Some ''application/json'') 30 w"

definition logs_request :: "string \<Rightarrow> string \<Rightarrow> 's world \<Rightarrow> request" where
  "logs_request job_id profile_id w =
     build_request ''GET'' (''/jobs/'' @ job_id @ ''/logs?tailBytes=65536'') (Some profile_id) None None None
       (Some ''text/plain'') 30 w"

text \<open>The second world is the first with some more lines printed.\<close>

definition prints_only :: "'s world \<Rightarrow> 's world \<Rightarrow> bool" where
  "prints_only w w' \<longleftrightarrow> (\<exists>ps. w' = w\<lparr>outbox := outbox w @ map Print ps\<rparr>)"

section \<open>Properties of the retry coordinator\<close>





















text \<open>
  C10. With \<open>attempts < 1\<close> the range of the loop is empty: \<open>retry\<close> raises the
  \<open>RuntimeError\<close> whose message is the label followed by \<open>'' failed''\<close>, and leaves the
  world as it was. The equation holds for every operation \<open>fn\<close>, so the operation is
  never invoked: an invocation would leave its effect on the world, and the error would
  be one of its own.
\<close>

theorem retry_no_attempts:
  "attempts < 1 \<Longrightarrow>
   retry what fn attempts base_delay_s w = (Inl (RuntimeError [Txt what, Txt '' failed'']), w)"
  by (simp add: retry_def retry_loop.simps retry_end_def)

theorem retry_no_attempts_witness:
  "(0::int) < 1 \<and>
   retry ''op'' (on_opaque (flaky 0)) 0 1 (fresh [] 0)
   = (Inl (RuntimeError [Txt ''op'', Txt '' failed'']), fresh [] 0)"
  using retry_no_attempts [of 0 "''op''" "on_opaque (flaky 0)" 1 "fresh [] 0"]
  by simp

section \<open>Properties of the transport\<close>

lemma http_error_status:
  "fst (http_error meth pth code hdrs b w) = Inl (HTTPFailure f) \<Longrightarrow> status f = code"
  by (auto simp: http_error_def Let_def split: prod.splits)

lemma u_request_failure_status:
  assumes "fst (u_request meth pth pid jb body ct acc tmo w) = Inl (HTTPFailure f)"
  shows "status f < 200 \<or> 300 \<le> status f"
proof (cases "urlopen (build_request meth pth pid jb body ct acc tmo w) w")
  case (Pair out w1)
  show ?thesis
  proof (cases out)
    case (Answer code hdrs b)
    with Pair assms have "\<not> (200 \<le> code \<and> code < 300)" and "status f = code"
      by (auto simp: u_request_def split: if_splits dest: http_error_status)
    then show ?thesis by auto
  next
    case (Unreachable reason)
    with Pair assms show ?thesis by (simp add: u_request_def)
  next
    case (Broken cls msg)
    with Pair assms show ?thesis by (simp add: u_request_def)
  qed
qed

lemma request_json_failure:
  "fst (request_json meth pth pid jb w) = Inl (HTTPFailure f) \<Longrightarrow>
   fst (u_request meth pth pid jb None None (Some ''application/json'') 30 w) = Inl (HTTPFailure f)"
  by (auto simp: request_json_def unexpected_http_def json_error_def split: prod.splits sum.splits if_splits option.splits)

lemma request_bytes_failure:
  "fst (request_bytes meth pth pid w) = Inl (HTTPFailure f) \<Longrightarrow>
   fst (u_request meth pth pid None None None None 30 w) = Inl (HTTPFailure f)"
  by (auto simp: request_bytes_def unexpected_http_def split: prod.splits sum.splits if_splits)

lemma request_text_failure:
  "fst (request_text meth pth pid w) = Inl (HTTPFailure f) \<Longrightarrow>
   fst (u_request meth pth pid None None None (Some ''text/plain'') 30 w) = Inl (HTTPFailure f)"
  by (auto simp: request_text_def unexpected_http_def split: prod.splits sum.splits if_splits)

text \<open>
  C8. Whenever \<open>_request\<close>, \<open>request_json\<close>, \<open>request_bytes\<close> or \<open>request_text\<close> raises
  an \<open>HTTPFailure\<close>, its status is outside \<open>[200, 300)\<close>: the only place that builds
  one is the handler of \<open>HTTPError\<close>, which \<^verbatim>\<open>urlopen\<close> raises for no status in that
  interval.
\<close>

theorem http_failure_status_not_2xx:
  "(fst (u_request meth pth pid jb body ct acc tmo w) = Inl (HTTPFailure f)
      \<longrightarrow> status f < 200 \<or> 300 \<le> status f) \<and>
   (fst (request_json meth pth pid jb w) = Inl (HTTPFailure f)
      \<longrightarrow> status f < 200 \<or> 300 \<le> status f) \<and>
   (fst (request_bytes meth pth pid w) = Inl (HTTPFailure f)
      \<longrightarrow> status f < 200 \<or> 300 \<le> status f) \<and>
   (fst (request_text meth pth pid w) = Inl (HTTPFailure f)
      \<longrightarrow> status f < 200 \<or> 300 \<le> status f)"
  by (blast dest: u_request_failure_status
      request_json_failure [THEN u_request_failure_status]
      request_bytes_failure [THEN u_request_failure_status]
      request_text_failure [THEN u_request_failure_status])

theorem http_failure_status_not_2xx_witness:
  "fst (u_request ''GET'' ''/meta'' None None None None None 30 (fresh [busy] ())) = Inl (HTTPFailure (busy_failure ''GET'' ''/meta'')) \<and>
   fst (request_json ''GET'' ''/meta'' None None (fresh [busy] ())) = Inl (HTTPFailure (busy_failure ''GET'' ''/meta'')) \<and>
   fst (request_bytes ''GET'' ''/meta'' None (fresh [busy] ())) = Inl (HTTPFailure (busy_failure ''GET'' ''/meta'')) \<and>
   fst (request_text ''GET'' ''/meta'' None (fresh [busy] ())) = Inl (HTTPFailure (busy_failure ''GET'' ''/meta'')) \<and>
   (status (busy_failure ''GET'' ''/meta'') < 200 \<or> 300 \<le> status (busy_failure ''GET'' ''/meta''))"
  using http_failure_status_not_2xx [of "''GET''" "''/meta''" None None None None None 30 "fresh [busy] ()" "busy_failure ''GET'' ''/meta''"]
  by (simp add: u_request_def request_json_def request_bytes_def request_text_def urlopen_def fresh_def busy_def busy_failure_def http_error_def build_request_def
      dict_of_def dict_get_def py_or_def error_fields_def log_def Let_def)

section \<open>What a request does to the world\<close>

lemma prints_only_refl: "prints_only w w"
  unfolding prints_only_def by (rule exI [of _ "[]"]) simp

lemma prints_only_log: "prints_only w w' \<Longrightarrow> prints_only w (log m w')"
  unfolding prints_only_def
proof (elim exE)
  fix ps assume "w' = w\<lparr>outbox := outbox w @ map Print ps\<rparr>"
  then have "log m w' = w\<lparr>outbox := outbox w @ map Print (ps @ [m])\<rparr>"
    by (simp add: log_def)
  then show "\<exists>ps. log m w' = w\<lparr>outbox := outbox w @ map Print ps\<rparr>" ..
qed

lemma http_error_prints: "prints_only w (snd (http_error meth pth code hdrs b w))"
  by (auto simp: http_error_def Let_def split: prod.splits intro!: prints_only_log prints_only_refl)

lemma sent_append: "sent (xs @ ys) = sent xs @ sent ys"
  by (induction xs rule: sent.induct) auto

lemma sent_prints [simp]: "sent (map Print ps) = []"
  by (induction ps) auto

lemma after_request_simps [simp]:
  "clock (after_request req ps w) = clock w + lag w"
  "inbox (after_request req ps w) = tl (inbox w)"
  "outbox (after_request req ps w) = outbox w @ Sent req # map Print ps"
  "opaque (after_request req ps w) = opaque w"
  "base_url (after_request req ps w) = base_url w"
  "api_token (after_request req ps w) = api_token w"
  "e2e_gcs_iam (after_request req ps w) = e2e_gcs_iam w"
  by (simp_all add: after_request_def)

lemma build_request_after [simp]:
  "build_request a b c d e f g h (after_request req ps w) = build_request a b c d e f g h w"
  by (simp add: build_request_def)

lemma after_request_log:
  "log m (after_request req ps w) = after_request req (ps @ [m]) w"
  by (simp add: after_request_def log_def)

lemma lag_nonneg: "0 \<le> lag w"
  by (simp add: lag_def split: list.splits)

lemma urlopen_world:
  "snd (urlopen req w) = after_request req [] w"
  by (simp add: urlopen_def after_request_def lag_def split: list.splits)

lemma u_request_world:
  "\<exists>ps. snd (u_request meth pth pid jb body ct acc tmo w) =
      after_request (build_request meth pth pid jb body ct acc tmo w) ps w"
proof -
  let ?req = "build_request meth pth pid jb body ct acc tmo w"
  obtain out w1 where u: "urlopen ?req w = (out, w1)" by (cases "urlopen ?req w")
  then have w1: "w1 = after_request ?req [] w" using urlopen_world [of ?req w] by simp
  show ?thesis
  proof (cases out)
    case (Answer code hdrs b)
    show ?thesis
    proof (cases "200 \<le> code \<and> code < 300")
      case True
      with u Answer w1 have "snd (u_request meth pth pid jb body ct acc tmo w) = after_request ?req [] w"
        by (simp add: u_request_def)
      then show ?thesis ..
    next
      case False
      obtain ps where "snd (http_error meth pth code hdrs b w1) = w1\<lparr>outbox := outbox w1 @ map Print ps\<rparr>"
        using http_error_prints [of w1 meth pth code hdrs b] unfolding prints_only_def by blast
      with u Answer False w1 have "snd (u_request meth pth pid jb body ct acc tmo w) = after_request ?req ps w"
        by (auto simp: u_request_def after_request_def)
      then show ?thesis ..
    qed
  next
    case (Unreachable reason)
    with u w1 have "snd (u_request meth pth pid jb body ct acc tmo w) = after_request ?req [] w"
      by (simp add: u_request_def)
    then show ?thesis ..
  next
    case (Broken cls msg)
    with u w1 have "snd (u_request meth pth pid jb body ct acc tmo w) = after_request ?req [] w"
      by (simp add: u_request_def)
    then show ?thesis ..
  qed
qed


lemma u_request_answer:
  assumes "inbox w = r # rs" and "outcome r = Answer code hdrs b" and "200 \<le> code \<and> code < 300"
  shows "u_request meth pth pid jb body ct acc tmo w =
     (Inr (code, dict_of hdrs, b), after_request (build_request meth pth pid jb body ct acc tmo w) [] w)"
  using assms by (simp add: u_request_def urlopen_def after_request_def lag_def)

lemma request_json_world:
  "\<exists>ps. snd (request_json meth pth pid jb w) =
      after_request (build_request meth pth pid jb None None (Some ''application/json'') 30 w) ps w"
  using u_request_world [of meth pth pid jb None None "Some ''application/json''" 30 w]
  by (auto simp: request_json_def split: prod.splits sum.splits option.splits)

lemma request_text_world:
  "\<exists>ps. snd (request_text meth pth pid w) =
      after_request (build_request meth pth pid None None None (Some ''text/plain'') 30 w) ps w"
  using u_request_world [of meth pth pid None None None "Some ''text/plain''" 30 w]
  by (auto simp: request_text_def split: prod.splits sum.splits)

lemma request_json_envelope:
  assumes "inbox w = r # rs" and "envelope r = Some j"
  shows "request_json meth pth pid jb w =
     (Inr j, after_request (build_request meth pth pid jb None None (Some ''application/json'') 30 w) [] w)"
proof -
  from assms(2) obtain code hdrs b where o: "outcome r = Answer code hdrs b"
    and c: "200 \<le> code \<and> code < 300" and j: "(if raw b = [] then Some (JDict []) else parsed b) = Some j"
    by (auto simp: envelope_def split: outcome.splits if_splits)
  from u_request_answer [OF assms(1) o c] j c show ?thesis
    by (auto simp: request_json_def split: if_splits)
qed

lemma request_json_returns:
  assumes "request_json meth pth pid jb w = (Inr j, w')"
  shows "\<exists>r rs. inbox w = r # rs \<and> envelope r = Some j \<and>
     w' = after_request (build_request meth pth pid jb None None (Some ''application/json'') 30 w) [] w"
proof (cases "inbox w")
  case Nil
  with assms show ?thesis
    by (simp add: request_json_def u_request_def urlopen_def)
next
  case (Cons r rs)
  show ?thesis
  proof (cases "envelope r")
    case (Some j')
    from request_json_envelope [OF Cons Some] assms Cons Some show ?thesis by simp
  next
    case None
    have "isl (fst (request_json meth pth pid jb w))"
    proof (cases "outcome r")
      case (Answer code hdrs b)
      show ?thesis
      proof (cases "200 \<le> code \<and> code < 300")
        case True
        from u_request_answer [OF Cons Answer True] None Answer True show ?thesis
          by (auto simp: request_json_def envelope_def split: if_splits)
      next
        case False
        with Cons Answer show ?thesis
          by (auto simp: request_json_def u_request_def urlopen_def http_error_def Let_def split: prod.splits)
      qed
    next
      case (Unreachable reason)
      with Cons show ?thesis by (simp add: request_json_def u_request_def urlopen_def)
    next
      case (Broken cls msg)
      with Cons show ?thesis by (simp add: request_json_def u_request_def urlopen_def)
    qed
    with assms show ?thesis by simp
  qed
qed

end
